theory Spec2Isabelle
  imports Main "HOL-Library.AList"
begin

section \<open>Exceptions\<close>

text \<open>
  Every exception that release-runner.py raises itself, or lets through from a
  collaborator, is a value of \<open>exn\<close>. \<open>HTTPError\<close> is \<open>requests.HTTPError\<close>;
  \<open>OtherException\<close> stands for any exception of a collaborator that is none of the
  classes named here (for instance \<open>requests.ConnectionError\<close> or
  \<open>requests.Timeout\<close>, which are not subclasses of \<open>requests.HTTPError\<close>).
\<close>

datatype exn =
    SanityException string
  | RuntimeError string
  | ValueError string
  | UnboundLocalError string
  | IOError string
  | KeyError string
  | HTTPError string
  | OtherException string

fun is_HTTPError :: "exn \<Rightarrow> bool" where
  "is_HTTPError (HTTPError m) = True"
| "is_HTTPError e = False"

section \<open>Python string operations\<close>

fun startswith :: "string \<Rightarrow> string \<Rightarrow> bool" where
  "startswith s [] = True"
| "startswith [] (y # ys) = False"
| "startswith (x # xs) (y # ys) = (x = y \<and> startswith xs ys)"

definition endswith :: "string \<Rightarrow> string \<Rightarrow> bool" where
  \<comment> \<open>\<open>s.endswith(x)\<close>\<close>
  "endswith s x = startswith (rev s) (rev x)"

definition basename :: "string \<Rightarrow> string" where
  \<comment> \<open>\<open>os.path.basename\<close> (posixpath): everything after the last slash.\<close>
  "basename p = rev (takeWhile (\<lambda>c. c \<noteq> CHR ''/'') (rev p))"

fun split_sep :: "char \<Rightarrow> string \<Rightarrow> string \<Rightarrow> string list" where
  \<comment> \<open>\<open>s.split(sep)\<close> for a one-character separator; the first string is the
      field read so far, reversed.\<close>
  "split_sep sep w [] = [rev w]"
| "split_sep sep w (c # cs) =
     (if c = sep then rev w # split_sep sep [] cs else split_sep sep (c # w) cs)"

definition py_isspace :: "char \<Rightarrow> bool" where
  \<comment> \<open>the whitespace of Python 2 byte strings: space, tab, LF, VT, FF, CR\<close>
  "py_isspace c = (c = CHR '' '' \<or> c = CHR 0x09 \<or> c = CHR 0x0A \<or> c = CHR 0x0B
                    \<or> c = CHR 0x0C \<or> c = CHR 0x0D)"

fun split_ws :: "string \<Rightarrow> string \<Rightarrow> string list" where
  "split_ws w [] = (if w = [] then [] else [rev w])"
| "split_ws w (c # cs) =
     (if py_isspace c then (if w = [] then split_ws [] cs else rev w # split_ws [] cs)
      else split_ws (c # w) cs)"

definition py_split :: "string \<Rightarrow> string list" where
  \<comment> \<open>\<open>line.split()\<close>: the maximal runs of non-whitespace characters\<close>
  "py_split s = split_ws [] s"

fun readlines_from :: "string \<Rightarrow> string \<Rightarrow> string list" where
  "readlines_from w [] = (if w = [] then [] else [rev w])"
| "readlines_from w (c # cs) =
     (if c = CHR 0x0A then rev (c # w) # readlines_from [] cs
      else readlines_from (c # w) cs)"

definition readlines :: "string \<Rightarrow> string list" where
  \<comment> \<open>\<open>fd.readlines()\<close> of a file opened in mode \<open>'rb'\<close>: lines keep their
      newline.\<close>
  "readlines content = readlines_from [] content"

definition path_join :: "string \<Rightarrow> string \<Rightarrow> string" where
  \<comment> \<open>\<open>os.path.join(a, b)\<close> (posixpath) for two components\<close>
  "path_join a b =
     (if startswith b ''/'' then b
      else if a = [] \<or> endswith a ''/'' then a @ b
      else a @ ''/'' @ b)"

section \<open>Regular expressions of the channel mappings\<close>

text \<open>
  \<open>re.match\<close> belongs to the Python standard library. \<open>update_channels\<close> takes the
  matcher as a parameter; \<open>py_re_match\<close> is the matcher for the fragment of the
  pattern language that the mappings of the documentation use: \<open>^\<close>, \<open>$\<close>,
  \<open>\d\<close>, an escaped or plain literal character, and the postfix \<open>+\<close>.
  \<open>re.match\<close> looks for a match that starts at the beginning of the string and may
  end anywhere; \<open>$\<close> holds at the end of the string and before a final newline.
\<close>

datatype re_atom = Digit | Lit char

datatype re_item = Bol | Eol | One re_atom | Many re_atom

definition backslash :: char where
  "backslash = CHR 0x5C"

definition is_digit :: "char \<Rightarrow> bool" where
  "is_digit c = (c \<in> set ''0123456789'')"

definition is_plain :: "char \<Rightarrow> bool" where
  \<comment> \<open>characters that stand for themselves in a pattern\<close>
  "is_plain c = (c \<in> set ''0123456789abcdefghijklmnopqrstuvwxyzABCDEFGHIJKLMNOPQRSTUVWXYZ_-'')"

fun quantified :: "re_atom \<Rightarrow> string \<Rightarrow> re_item \<times> string" where
  "quantified a (c # cs) = (if c = CHR ''+'' then (Many a, cs) else (One a, c # cs))"
| "quantified a [] = (One a, [])"

lemma quantified_length: "length (snd (quantified a s)) \<le> length s"
  by (cases s) auto

function re_compile :: "string \<Rightarrow> re_item list option" where
  "re_compile [] = Some []"
| "re_compile (c # cs) =
     (if c = CHR ''^'' then map_option ((#) Bol) (re_compile cs)
      else if c = CHR ''$'' then map_option ((#) Eol) (re_compile cs)
      else if c = backslash then
        (case cs of
           [] \<Rightarrow> None
         | d # ds \<Rightarrow>
             (if d = CHR ''d'' then
                map_option ((#) (fst (quantified Digit ds))) (re_compile (snd (quantified Digit ds)))
              else if d = CHR ''.'' then
                map_option ((#) (fst (quantified (Lit d) ds))) (re_compile (snd (quantified (Lit d) ds)))
              else None))
      else if is_plain c then
        map_option ((#) (fst (quantified (Lit c) cs))) (re_compile (snd (quantified (Lit c) cs)))
      else None)"
  by pat_completeness auto
termination
proof (relation "measure length")
  show "wf (measure length)" by simp
next
  fix c cs assume "c = CHR ''^''"
  then show "(cs, c # cs) \<in> measure length" by simp
next
  fix c cs assume "c = CHR ''$''"
  then show "(cs, c # cs) \<in> measure length" by simp
next
  fix c :: char and cs :: string and d :: char and ds :: string
  assume "cs = d # ds"
  moreover have "length (snd (quantified Digit ds)) \<le> length ds"
    by (rule quantified_length)
  ultimately show "(snd (quantified Digit ds), c # cs) \<in> measure length" by simp
next
  fix c :: char and cs :: string and d :: char and ds :: string
  assume "cs = d # ds"
  moreover have "length (snd (quantified (Lit d) ds)) \<le> length ds"
    by (rule quantified_length)
  ultimately show "(snd (quantified (Lit d) ds), c # cs) \<in> measure length" by simp
next
  fix c :: char and cs :: string
  have "length (snd (quantified (Lit c) cs)) \<le> length cs"
    by (rule quantified_length)
  then show "(snd (quantified (Lit c) cs), c # cs) \<in> measure length" by simp
qed

fun atom_ok :: "re_atom \<Rightarrow> char \<Rightarrow> bool" where
  "atom_ok Digit c = is_digit c"
| "atom_ok (Lit l) c = (c = l)"

fun re_run :: "re_item list \<Rightarrow> bool \<Rightarrow> string \<Rightarrow> bool" where
  \<comment> \<open>the flag says whether the position is the start of the string\<close>
  "re_run [] b s = True"
| "re_run (Bol # r) b s = (b \<and> re_run r b s)"
| "re_run (Eol # r) b s = ((s = [] \<or> s = [CHR 0x0A]) \<and> re_run r b s)"
| "re_run (One a # r) b [] = False"
| "re_run (One a # r) b (c # cs) = (atom_ok a c \<and> re_run r False cs)"
| "re_run (Many a # r) b [] = False"
| "re_run (Many a # r) b (c # cs) =
     (atom_ok a c \<and> (re_run (Many a # r) False cs \<or> re_run r False cs))"

definition py_re_match :: "string \<Rightarrow> string \<Rightarrow> bool" where
  "py_re_match pattern s =
     (case re_compile pattern of None \<Rightarrow> False | Some items \<Rightarrow> re_run items True s)"

section \<open>Channel derivation\<close>

fun update_channels ::
  "(string \<Rightarrow> string \<Rightarrow> bool) \<Rightarrow> string \<Rightarrow> (string \<times> string list) list \<Rightarrow> exn + string list"
where
  "update_channels re_match version [] =
     Inl (RuntimeError (''Cannot find update channels for '' @ version))"
| "update_channels re_match version ((pattern, channels) # mappings) =
     (if re_match pattern version then Inr channels
      else update_channels re_match version mappings)"

definition pattern_x0 :: string where
  \<comment> \<open>the pattern \<open>^\d+\.0$\<close>\<close>
  "pattern_x0 = ''^'' @ [backslash] @ ''d+'' @ [backslash] @ ''.0$''"

definition pattern_xyz :: string where
  \<comment> \<open>the pattern \<open>^\d+\.\d+\.\d+$\<close>\<close>
  "pattern_xyz = ''^'' @ [backslash] @ ''d+'' @ [backslash] @ ''.'' @ [backslash] @ ''d+''
                 @ [backslash] @ ''.'' @ [backslash] @ ''d+$''"

definition doc_mappings :: "(string \<times> string list) list" where
  "doc_mappings = [(pattern_x0, [''beta'', ''release'']), (pattern_xyz, [''release''])]"

section \<open>Artifact whitelists\<close>

text \<open>The two module-level sets of name suffixes, as duplicate-free lists.\<close>

definition CHECKSUMS :: "string list" where
  "CHECKSUMS = [''.checksums'', ''.checksums.asc'']"

definition ALL_FILES :: "string list" where
  "ALL_FILES = [''.checksums'', ''.checksums.asc'', ''.complete.mar'', ''.exe'', ''.dmg'',
                ''i686.tar.bz2'', ''x86_64.tar.bz2'']"

definition set_minus :: "string list \<Rightarrow> string list \<Rightarrow> string list" where
  \<comment> \<open>the difference \<open>a - b\<close> of two Python sets\<close>
  "set_minus a b = remdups (filter (\<lambda>x. x \<notin> set b) a)"

definition file_in_whitelist :: "string \<Rightarrow> string list \<Rightarrow> bool" where
  "file_in_whitelist artifact whitelist = list_ex (endswith artifact) whitelist"

section \<open>The world the runner acts on\<close>

text \<open>
  A release request is a dictionary of the request queue; the record holds the keys
  that the runner itself inspects. \<open>graph_kwargs\<close> holds the entries of the keyword
  dictionary that the runner computes itself, together with the task identifiers of
  the en-US platforms that \<open>validate_graph_kwargs\<close> reads back from it; every other
  entry is produced by a collaborator and handed on unread.
\<close>

record release =
  name :: string
  version :: string
  branch :: string
  product :: string
  mozillaRevision :: string

record graph_kwargs =
  kw_version :: string
  kw_repo_path :: string
  kw_branch :: string
  kw_release_channels :: "string list"
  kw_final_verify_channels :: "string list"
  kw_publish_to_balrog_channels :: "string list"
  kw_postrelease_bouncer_aliases_enabled :: bool
  kw_postrelease_version_bump_enabled :: bool
  kw_push_to_releases_enabled :: bool
  kw_en_US_task_ids :: "string list"

text \<open>The calls to the request queue, the graph builder, the scheduler and the mailer.\<close>

datatype call =
    UpdateStatus release string
  | MarkAsCompleted release
  | MarkAsFailed release string
  | MakeTaskGraph graph_kwargs
  | CreateTaskGraph string string
  | EmailReleaseDrivers release string

text \<open>
  The state: the directories and files of the local file system, the number of
  temporary directories made so far, the downloads requested (task and artifact), and
  the calls issued to the collaborators, oldest first.
\<close>

record world =
  dirs :: "string set"
  files :: "string \<rightharpoonup> string"
  mkdtemp_count :: nat
  requested :: "(string \<times> string) list"
  calls :: "call list"

datatype response = Content string | Raises exn

text \<open>
  What one sanitation run gets from outside: the names \<open>tempfile.mkdtemp\<close> hands out,
  the artifact listing of the queue, the outcome of \<open>requests.get\<close> followed by
  \<open>raise_for_status\<close> for an artifact of a task, whether the two gpg commands exit with
  status zero, and the SHA-512 digest function of \<open>hashlib\<close>.
\<close>

record sanity_env =
  mkdtemp_name :: "nat \<Rightarrow> string"
  listLatestArtifacts :: "string \<Rightarrow> exn + string list"
  requests_get :: "string \<Rightarrow> string \<Rightarrow> response"
  gpg_import :: "string \<Rightarrow> string \<Rightarrow> bool"
  gpg_verify :: "(string \<rightharpoonup> string) \<Rightarrow> string \<Rightarrow> string \<Rightarrow> string \<Rightarrow> bool"
  sha512_hexdigest :: "string \<Rightarrow> string"

definition mkdtemp :: "sanity_env \<Rightarrow> world \<Rightarrow> string \<times> world" where
  "mkdtemp env w =
     (mkdtemp_name env (mkdtemp_count w),
      w\<lparr>dirs := insert (mkdtemp_name env (mkdtemp_count w)) (dirs w),
        mkdtemp_count := Suc (mkdtemp_count w)\<rparr>)"

definition write_file :: "string \<Rightarrow> string \<Rightarrow> world \<Rightarrow> world" where
  "write_file filepath content w = w\<lparr>files := (files w)(filepath \<mapsto> content)\<rparr>"

definition rmtree :: "string \<Rightarrow> world \<Rightarrow> world" where
  "rmtree d w =
     w\<lparr>dirs := dirs w - {d},
       files := (\<lambda>p. if startswith p (d @ ''/'') then None else files w p)\<rparr>"

section \<open>The sanitation of one en-US binary\<close>

definition validate_signatures ::
  "sanity_env \<Rightarrow> string \<Rightarrow> string \<Rightarrow> string \<Rightarrow> string \<Rightarrow> world \<Rightarrow> exn + unit"
where
  "validate_signatures env checksums signature dir_path gpg_key_path w =
     (if \<not> gpg_import env dir_path gpg_key_path then
        Inl (SanityException ''GPG signature check failed'')
      else if \<not> gpg_verify env (files w) dir_path signature checksums then
        Inl (SanityException ''GPG signature check failed'')
      else Inr ())"

definition unpack_message :: "nat \<Rightarrow> string" where
  "unpack_message n =
     (if 4 < n then ''too many values to unpack''
      else if n = 1 then ''need more than 1 value to unpack''
      else ''need more than '' @ [''0123'' ! n] @ '' values to unpack'')"

fun unpack4 :: "string list \<Rightarrow> exn + string \<times> string \<times> string \<times> string" where
  \<comment> \<open>the tuple assignment \<open>digest, alg, _, name = line.split()\<close>\<close>
  "unpack4 [a, b, c, d] = Inr (a, b, c, d)"
| "unpack4 xs = Inl (ValueError (unpack_message (length xs)))"

fun parse_lines :: "(string \<times> string) list \<Rightarrow> string list \<Rightarrow> exn + (string \<times> string) list" where
  "parse_lines d [] = Inr d"
| "parse_lines d (line # lines) =
     (case unpack4 (py_split line) of
        Inl e \<Rightarrow> Inl e
      | Inr (digest, alg, mode, nm) \<Rightarrow>
          (if alg \<noteq> ''sha512'' then parse_lines d lines
           else parse_lines (AList.update (basename nm) digest d) lines))"

definition parse_sha512 :: "world \<Rightarrow> string \<Rightarrow> string list \<Rightarrow> exn + (string \<times> string) list" where
  "parse_sha512 w checksums whitelist =
     (case files w checksums of
        None \<Rightarrow> Inl (IOError checksums)
      | Some content \<Rightarrow>
          (case parse_lines [] (readlines content) of
             Inl e \<Rightarrow> Inl e
           | Inr d \<Rightarrow> Inr (filter (\<lambda>(k, v). file_in_whitelist k whitelist) d)))"

fun download_loop ::
  "sanity_env \<Rightarrow> string list \<Rightarrow> string \<Rightarrow> string \<Rightarrow> bool \<Rightarrow> world \<Rightarrow> (exn + bool) \<times> world"
where
  "download_loop env [] task_id dir_path failed_downloads w = (Inr failed_downloads, w)"
| "download_loop env (artifact # artifacts) task_id dir_path failed_downloads w =
     (case requests_get env task_id artifact of
        Raises e \<Rightarrow>
          (if is_HTTPError e then
             download_loop env artifacts task_id dir_path True
               (w\<lparr>requested := requested w @ [(task_id, artifact)]\<rparr>)
           else (Inl e, w\<lparr>requested := requested w @ [(task_id, artifact)]\<rparr>))
      | Content body \<Rightarrow>
          download_loop env artifacts task_id dir_path failed_downloads
            (write_file (path_join dir_path (basename artifact)) body
               (w\<lparr>requested := requested w @ [(task_id, artifact)]\<rparr>)))"

definition download_all_artifacts ::
  "sanity_env \<Rightarrow> string list \<Rightarrow> string \<Rightarrow> string \<Rightarrow> world \<Rightarrow> (exn + unit) \<times> world"
where
  "download_all_artifacts env artifacts task_id dir_path w =
     (case download_loop env artifacts task_id dir_path False w of
        (Inl e, w') \<Rightarrow> (Inl e, w')
      | (Inr failed_downloads, w') \<Rightarrow>
          (if failed_downloads then (Inl (SanityException ''Downloading artifacts failed''), w')
           else (Inr (), w')))"

definition get_hash :: "sanity_env \<Rightarrow> string \<Rightarrow> world \<Rightarrow> exn + string" where
  "get_hash env filepath w =
     (case files w filepath of
        None \<Rightarrow> Inl (IOError filepath)
      | Some content \<Rightarrow> Inr (sha512_hexdigest env content))"

fun validate_checksums ::
  "sanity_env \<Rightarrow> (string \<times> string) list \<Rightarrow> string \<Rightarrow> world \<Rightarrow> exn + unit"
where
  "validate_checksums env [] dir_path w = Inr ()"
| "validate_checksums env ((nm, correct_hash) # rest) dir_path w =
     (case get_hash env (path_join dir_path nm) w of
        Inl e \<Rightarrow> Inl e
      | Inr computed_hash \<Rightarrow>
          (if computed_hash \<noteq> correct_hash then
             Inl (SanityException (''Failed to check digest for '' @ nm))
           else validate_checksums env rest dir_path w))"

text \<open>
  The loop of \<open>sanitize_en_US_binary\<close> over the checksums artifacts. The pair holds the
  local variables \<open>checksums\<close> and \<open>signature\<close>, \<open>None\<close> while unassigned.
\<close>

fun fetch_checksums ::
  "sanity_env \<Rightarrow> string list \<Rightarrow> string \<Rightarrow> string \<Rightarrow> string option \<times> string option \<Rightarrow> world
     \<Rightarrow> (exn + string option \<times> string option) \<times> world"
where
  "fetch_checksums env [] task_id tempdir vars w = (Inr vars, w)"
| "fetch_checksums env (artifact # artifacts) task_id tempdir (checksums, signature) w =
     (case requests_get env task_id artifact of
        Raises e \<Rightarrow>
          (if is_HTTPError e then
             (Inl (SanityException (''Failed to download '' @ basename artifact @ '' file'')),
              w\<lparr>requested := requested w @ [(task_id, artifact)]\<rparr>)
           else (Inl e, w\<lparr>requested := requested w @ [(task_id, artifact)]\<rparr>))
      | Content body \<Rightarrow>
          (if endswith (basename artifact) ''.checksums.asc'' then
             fetch_checksums env artifacts task_id tempdir
               (checksums, Some (path_join tempdir (basename artifact)))
               (write_file (path_join tempdir (basename artifact)) body
                  (w\<lparr>requested := requested w @ [(task_id, artifact)]\<rparr>))
           else
             fetch_checksums env artifacts task_id tempdir
               (Some (path_join tempdir (basename artifact)), signature)
               (write_file (path_join tempdir (basename artifact)) body
                  (w\<lparr>requested := requested w @ [(task_id, artifact)]\<rparr>))))"

definition unbound :: "string \<Rightarrow> exn" where
  "unbound v = UnboundLocalError (''local variable '' @ [CHR 0x27] @ v @ [CHR 0x27]
                                  @ '' referenced before assignment'')"

definition verify_and_check ::
  "sanity_env \<Rightarrow> string \<Rightarrow> string \<Rightarrow> string \<Rightarrow> string list \<Rightarrow> string \<Rightarrow> string \<Rightarrow> world
     \<Rightarrow> (exn + unit) \<times> world"
where
  \<comment> \<open>\<open>sanitize_en_US_binary\<close> from the signature validation to the end\<close>
  "verify_and_check env task_id gpg_key_path tempdir other_artifacts checksums signature w =
     (case validate_signatures env checksums signature tempdir gpg_key_path w of
        Inl e \<Rightarrow> (Inl e, w)
      | Inr u \<Rightarrow>
          (case download_all_artifacts env other_artifacts task_id tempdir w of
             (Inl e, w1) \<Rightarrow> (Inl e, w1)
           | (Inr u1, w1) \<Rightarrow>
               (case parse_sha512 w1 checksums (set_minus ALL_FILES CHECKSUMS) of
                  Inl e \<Rightarrow> (Inl e, w1)
                | Inr sha512_dict \<Rightarrow>
                    (case validate_checksums env sha512_dict tempdir w1 of
                       Inl e \<Rightarrow> (Inl e, w1)
                     | Inr u2 \<Rightarrow> (Inr (), rmtree tempdir w1)))))"

definition sanitize_en_US_binary ::
  "sanity_env \<Rightarrow> string \<Rightarrow> string \<Rightarrow> world \<Rightarrow> (exn + unit) \<times> world"
where
  "sanitize_en_US_binary env task_id gpg_key_path w =
     (case mkdtemp env w of
        (tempdir, w0) \<Rightarrow>
          (case listLatestArtifacts env task_id of
             Inl e \<Rightarrow> (Inl e, w0)
           | Inr all_artifacts \<Rightarrow>
               (case fetch_checksums env
                       (filter (\<lambda>k. file_in_whitelist k CHECKSUMS) all_artifacts)
                       task_id tempdir (None, None) w0 of
                  (Inl e, w1) \<Rightarrow> (Inl e, w1)
                | (Inr (None, signature), w1) \<Rightarrow> (Inl (unbound ''checksums''), w1)
                | (Inr (Some checksums, None), w1) \<Rightarrow> (Inl (unbound ''signature''), w1)
                | (Inr (Some checksums, Some signature), w1) \<Rightarrow>
                    verify_and_check env task_id gpg_key_path tempdir
                      (set_minus (filter (\<lambda>k. file_in_whitelist k ALL_FILES) all_artifacts)
                         (filter (\<lambda>k. file_in_whitelist k CHECKSUMS) all_artifacts))
                      checksums signature w1)))"

section \<open>The channel decision\<close>

text \<open>
  The keys of the branch configuration that the channel decision reads. A key that
  the dictionary lacks is \<open>None\<close>: subscripting it raises KeyError, while
  \<open>branchConfig.get('mirror_requiring_channels', [])\<close> falls back to the empty list.
\<close>

record branch_config =
  bc_release_channel_mappings :: "(string \<times> string list) list option"
  bc_mirror_requiring_channels :: "string list option"
  bc_postrelease_version_bump_enabled :: "bool option"
  bc_postrelease_bouncer_aliases_enabled :: "bool option"

record channel_decision =
  release_channels :: "string list"
  final_verify_channels :: "string list"
  publish_to_balrog_channels :: "string list"
  postrelease_enabled :: bool
  postrelease_bouncer_aliases_enabled :: bool
  push_to_releases_enabled :: bool

text \<open>
  The statements of \<open>main\<close> from the call of \<open>update_channels\<close> to the end of the
  \<open>if candidate_release\<close>. The regular-expression matcher and \<open>is_candidate_release\<close>
  of \<open>kickoff.sanity\<close> are parameters.
\<close>

definition decide ::
  "(string \<Rightarrow> string \<Rightarrow> bool) \<Rightarrow> (string list \<Rightarrow> bool) \<Rightarrow> string \<Rightarrow> branch_config
     \<Rightarrow> exn + channel_decision"
where
  "decide re_match is_candidate_release ver branchConfig =
     (case bc_release_channel_mappings branchConfig of
        None \<Rightarrow> Inl (KeyError ''release_channel_mappings'')
      | Some mappings \<Rightarrow>
          (case update_channels re_match ver mappings of
             Inl e \<Rightarrow> Inl e
           | Inr chans \<Rightarrow>
               (if is_candidate_release chans then
                  Inr \<lparr>release_channels = chans,
                       final_verify_channels =
                         filter (\<lambda>c. c \<notin> set (case bc_mirror_requiring_channels branchConfig of
                                                  None \<Rightarrow> [] | Some mirror \<Rightarrow> mirror)) chans,
                       publish_to_balrog_channels =
                         filter (\<lambda>c. c \<notin> set (case bc_mirror_requiring_channels branchConfig of
                                                  None \<Rightarrow> [] | Some mirror \<Rightarrow> mirror)) chans,
                       postrelease_enabled = False,
                       postrelease_bouncer_aliases_enabled = False,
                       push_to_releases_enabled = False\<rparr>
                else
                  (case bc_postrelease_version_bump_enabled branchConfig of
                     None \<Rightarrow> Inl (KeyError ''postrelease_version_bump_enabled'')
                   | Some bump \<Rightarrow>
                       (case bc_postrelease_bouncer_aliases_enabled branchConfig of
                          None \<Rightarrow> Inl (KeyError ''postrelease_bouncer_aliases_enabled'')
                        | Some aliases \<Rightarrow>
                            Inr \<lparr>release_channels = chans,
                                 final_verify_channels = chans,
                                 publish_to_balrog_channels = chans,
                                 postrelease_enabled = bump,
                                 postrelease_bouncer_aliases_enabled = aliases,
                                 push_to_releases_enabled = True\<rparr>)))))"

section \<open>The release runner\<close>

text \<open>
  The collaborators of \<open>main\<close>. A call that returns nothing yields \<open>None\<close> when it
  succeeds and the exception it raises otherwise. \<open>slugId n\<close> is the identifier that
  the \<open>n\<close>-th iteration of the release loop draws. \<open>prepare_configs\<close> is the checkout of
  the buildbot configuration with its symlinks. \<open>other_kwargs\<close> stands for all the
  collaborator calls that fill the keyword dictionary (l10n changesets, partials,
  the l10n and en-US configurations, the remaining branch-configuration keys); it
  yields the task identifiers of the en-US platforms. \<open>release_sanitizer\<close> is the
  \<open>ReleaseSanitizerRunner\<close>: \<open>None\<close> when it was successful, its errors otherwise.
\<close>

record collaborators =
  slugId :: "nat \<Rightarrow> string"
  prepare_configs :: "exn option"
  readBranchConfig :: "string \<Rightarrow> exn + branch_config"
  regex_match :: "string \<Rightarrow> string \<Rightarrow> bool"
  is_candidate :: "string list \<Rightarrow> bool"
  update_status :: "release \<Rightarrow> string \<Rightarrow> exn option"
  other_kwargs :: "release \<Rightarrow> string \<Rightarrow> exn + string list"
  sanity :: sanity_env
  gpg_key_path :: string
  release_sanitizer :: "graph_kwargs \<Rightarrow> string option"
  make_task_graph_strict_kwargs :: "graph_kwargs \<Rightarrow> exn + string"
  createTaskGraph :: "string \<Rightarrow> string \<Rightarrow> exn option"
  mark_as_completed :: "release \<Rightarrow> exn option"
  email_release_drivers :: "release \<Rightarrow> string \<Rightarrow> exn option"
  mark_as_failed :: "release \<Rightarrow> string \<Rightarrow> exn option"

definition issue :: "call \<Rightarrow> world \<Rightarrow> world" where
  \<comment> \<open>a call to a collaborator is recorded when it is made\<close>
  "issue c w = w\<lparr>calls := calls w @ [c]\<rparr>"

fun sanitize_platforms ::
  "sanity_env \<Rightarrow> string list \<Rightarrow> string \<Rightarrow> world \<Rightarrow> (exn + unit) \<times> world"
where
  \<comment> \<open>the loop of \<open>validate_graph_kwargs\<close> over the en-US platforms\<close>
  "sanitize_platforms env [] key w = (Inr (), w)"
| "sanitize_platforms env (task_id # task_ids) key w =
     (case sanitize_en_US_binary env task_id key w of
        (Inl e, w1) \<Rightarrow> (Inl e, w1)
      | (Inr u, w1) \<Rightarrow> sanitize_platforms env task_ids key w1)"

definition validate_graph_kwargs ::
  "collaborators \<Rightarrow> graph_kwargs \<Rightarrow> world \<Rightarrow> (exn + unit) \<times> world"
where
  "validate_graph_kwargs c kwargs w =
     (case sanitize_platforms (sanity c) (kw_en_US_task_ids kwargs) (gpg_key_path c) w of
        (Inl e, w1) \<Rightarrow> (Inl e, w1)
      | (Inr u, w1) \<Rightarrow>
          (case release_sanitizer c kwargs of
             Some errors \<Rightarrow> (Inl (SanityException (''Issues on release sanity '' @ errors)), w1)
           | None \<Rightarrow> (Inr (), w1)))"

definition make_kwargs ::
  "string \<Rightarrow> channel_decision \<Rightarrow> release \<Rightarrow> string list \<Rightarrow> graph_kwargs"
where
  \<comment> \<open>the entries of the dictionary \<open>kwargs\<close> that \<open>main\<close> fills from its own variables\<close>
  "make_kwargs br decision rel task_ids =
     \<lparr>kw_version = version rel,
      kw_repo_path = branch rel,
      kw_branch = br,
      kw_release_channels = release_channels decision,
      kw_final_verify_channels = final_verify_channels decision,
      kw_publish_to_balrog_channels = publish_to_balrog_channels decision,
      kw_postrelease_bouncer_aliases_enabled = postrelease_bouncer_aliases_enabled decision,
      kw_postrelease_version_bump_enabled = postrelease_enabled decision,
      kw_push_to_releases_enabled = push_to_releases_enabled decision,
      kw_en_US_task_ids = task_ids\<rparr>"

definition submit_graph ::
  "collaborators \<Rightarrow> release \<Rightarrow> string \<Rightarrow> graph_kwargs \<Rightarrow> world \<Rightarrow> (exn + unit) \<times> world"
where
  \<comment> \<open>the body of the \<open>try\<close> from \<open>make_task_graph_strict_kwargs\<close> to the mail\<close>
  "submit_graph c rel graph_id kwargs w =
     (case make_task_graph_strict_kwargs c kwargs of
        Inl e \<Rightarrow> (Inl e, issue (MakeTaskGraph kwargs) w)
      | Inr graph \<Rightarrow>
          (case update_status c rel ''Submitting task graph'' of
             Some e \<Rightarrow>
               (Inl e, issue (UpdateStatus rel ''Submitting task graph'')
                         (issue (MakeTaskGraph kwargs) w))
           | None \<Rightarrow>
               (case createTaskGraph c graph_id graph of
                  Some e \<Rightarrow>
                    (Inl e, issue (CreateTaskGraph graph_id graph)
                              (issue (UpdateStatus rel ''Submitting task graph'')
                                 (issue (MakeTaskGraph kwargs) w)))
                | None \<Rightarrow>
                    (case mark_as_completed c rel of
                       Some e \<Rightarrow>
                         (Inl e, issue (MarkAsCompleted rel)
                                   (issue (CreateTaskGraph graph_id graph)
                                      (issue (UpdateStatus rel ''Submitting task graph'')
                                         (issue (MakeTaskGraph kwargs) w))))
                     | None \<Rightarrow>
                         (case email_release_drivers c rel graph_id of
                            Some e \<Rightarrow> Inl e
                          | None \<Rightarrow> Inr (),
                          issue (EmailReleaseDrivers rel graph_id)
                            (issue (MarkAsCompleted rel)
                               (issue (CreateTaskGraph graph_id graph)
                                  (issue (UpdateStatus rel ''Submitting task graph'')
                                     (issue (MakeTaskGraph kwargs) w)))))))))"

definition process_release ::
  "collaborators \<Rightarrow> string \<Rightarrow> channel_decision \<Rightarrow> release \<Rightarrow> string \<Rightarrow> world
     \<Rightarrow> (exn + unit) \<times> world"
where
  \<comment> \<open>the body of the \<open>try\<close> of the release loop\<close>
  "process_release c br decision rel graph_id w =
     (case update_status c rel ''Generating task graph'' of
        Some e \<Rightarrow> (Inl e, issue (UpdateStatus rel ''Generating task graph'') w)
      | None \<Rightarrow>
          (case other_kwargs c rel br of
             Inl e \<Rightarrow> (Inl e, issue (UpdateStatus rel ''Generating task graph'') w)
           | Inr task_ids \<Rightarrow>
               (case validate_graph_kwargs c (make_kwargs br decision rel task_ids)
                       (issue (UpdateStatus rel ''Generating task graph'') w) of
                  (Inl e, w1) \<Rightarrow> (Inl e, w1)
                | (Inr u, w1) \<Rightarrow>
                    submit_graph c rel graph_id (make_kwargs br decision rel task_ids) w1)))"

definition failure_message :: "string \<Rightarrow> string" where
  "failure_message graph_id = ''Failed to start release promotion (graph ID: '' @ graph_id @ '')''"

text \<open>
  The release loop: the list of the releases still to do, the number of the
  iteration, the variable \<open>rc\<close> and the state. The bare \<open>except\<close> catches whatever
  the body raises; an exception of \<open>mark_as_failed\<close> inside the handler is not caught.
\<close>

fun release_loop ::
  "collaborators \<Rightarrow> string \<Rightarrow> channel_decision \<Rightarrow> release list \<Rightarrow> nat \<Rightarrow> nat \<Rightarrow> world
     \<Rightarrow> (exn + nat) \<times> world"
where
  "release_loop c br decision [] i rc w = (Inr rc, w)"
| "release_loop c br decision (rel # rels) i rc w =
     (case process_release c br decision rel (slugId c i) w of
        (Inr u, w1) \<Rightarrow> release_loop c br decision rels (Suc i) rc w1
      | (Inl e, w1) \<Rightarrow>
          (case mark_as_failed c rel (failure_message (slugId c i)) of
             Some e' \<Rightarrow> (Inl e', issue (MarkAsFailed rel (failure_message (slugId c i))) w1)
           | None \<Rightarrow>
               release_loop c br decision rels (Suc i) 2
                 (issue (MarkAsFailed rel (failure_message (slugId c i))) w1)))"

text \<open>
  How \<open>main\<close> ends: it calls \<open>sys.exit\<close> with a code, it returns (the process then ends
  with status 0), an exception leaves it uncaught (status 1), or it is still polling
  when the observed answers of the request queue are used up.
\<close>

datatype outcome = SysExit nat | Returned | Uncaught exn | StillPolling


definition run_wave ::
  "collaborators \<Rightarrow> string \<Rightarrow> channel_decision \<Rightarrow> release list \<Rightarrow> world \<Rightarrow> outcome \<times> world"
where
  \<comment> \<open>\<open>main\<close> from \<open>rc = 0\<close> to its end\<close>
  "run_wave c br decision new_releases w =
     (case release_loop c br decision new_releases 0 0 w of
        (Inl e, w1) \<Rightarrow> (Uncaught e, w1)
      | (Inr rc, w1) \<Rightarrow> (if rc \<noteq> 0 then SysExit rc else Returned, w1))"

text \<open>One answer of \<open>rr.get_release_requests()\<close>: it raises, or it sets \<open>rr.new_releases\<close>.\<close>

datatype poll = PollRaises exn | NewReleases "release list"

fun poll_loop :: "poll list \<Rightarrow> (nat + release \<times> release list) option" where
  \<comment> \<open>the polling loop: exit code 5, or the wave and the release that the loop over
      the new releases leaves bound to the variable \<open>release\<close>, the last one\<close>
  "poll_loop [] = None"
| "poll_loop (PollRaises e # polls) = Some (Inl 5)"
| "poll_loop (NewReleases [] # polls) = poll_loop polls"
| "poll_loop (NewReleases (r # rs) # polls) = Some (Inr (last (r # rs), r # rs))"

definition main :: "collaborators \<Rightarrow> poll list \<Rightarrow> world \<Rightarrow> outcome \<times> world" where
  "main c polls w =
     (case poll_loop polls of
        None \<Rightarrow> (StillPolling, w)
      | Some (Inl code) \<Rightarrow> (SysExit code, w)
      | Some (Inr (rel, new_releases)) \<Rightarrow>
          (case prepare_configs c of
             Some e \<Rightarrow> (Uncaught e, w)
           | None \<Rightarrow>
               (case readBranchConfig c (last (split_sep (CHR ''/'') [] (branch rel))) of
                  Inl e \<Rightarrow> (Uncaught e, w)
                | Inr branchConfig \<Rightarrow>
                    (case decide (regex_match c) (is_candidate c) (version rel) branchConfig of
                       Inl e \<Rightarrow> (Uncaught e, w)
                     | Inr decision \<Rightarrow>
                         run_wave c (last (split_sep (CHR ''/'') [] (branch rel))) decision
                           new_releases w))))"

section \<open>What a run of the release loop shows\<close>


fun submitted_kwargs :: "call list \<Rightarrow> graph_kwargs list" where
  "submitted_kwargs [] = []"
| "submitted_kwargs (MakeTaskGraph kw # cs) = kw # submitted_kwargs cs"
| "submitted_kwargs (c # cs) = submitted_kwargs cs"

section \<open>The manifest entries the specification asks for\<close>



section \<open>Example inputs\<close>

definition newline :: string where
  "newline = [CHR 0x0A]"


definition broken_manifest :: string where
  "broken_manifest =
     ''aa11 sha512 10 win32/firefox.exe'' @ newline @
     ''bb22 sha512 firefox.dmg'' @ newline"

definition manifest_world :: "string \<Rightarrow> world" where
  "manifest_world content =
     \<lparr>dirs = {''/tmp/t0''}, files = [''/tmp/t0/firefox.checksums'' \<mapsto> content],
      mkdtemp_count = 1, requested = [], calls = []\<rparr>"

text \<open>
  A build job with a manifest, its signature, one installer and a log. The stand-in
  digest of a content \<open>c\<close> is \<open>sha:c\<close>; the download of \<open>firefox.dmg\<close> ends with a
  connection error, every unlisted artifact with an HTTP status error; the installer of
  task \<open>task2\<close> is corrupted.
\<close>

definition example_listing :: "string list" where
  "example_listing = [''public/build/firefox.checksums'', ''public/logs/live.log'',
     ''public/build/firefox.exe'', ''public/build/firefox.checksums.asc'']"

definition example_checksums :: string where
  "example_checksums = ''sha:MZ-binary sha512 9 win32/firefox.exe'' @ newline"

definition example_get :: "string \<Rightarrow> string \<Rightarrow> response" where
  "example_get task_id artifact =
     (if artifact = ''public/build/firefox.checksums'' then Content example_checksums
      else if artifact = ''public/build/firefox.checksums.asc'' then Content ''SIGNATURE''
      else if artifact = ''public/build/firefox.exe'' then
        (if task_id = ''task2'' then Content ''MZ-corrupt'' else Content ''MZ-binary'')
      else if artifact = ''public/build/firefox.dmg'' then
        Raises (OtherException ''ConnectionError'')
      else Raises (HTTPError ''404 Client Error''))"

definition good_env :: sanity_env where
  "good_env =
     \<lparr>mkdtemp_name = (\<lambda>n. ''/tmp/tmp'' @ replicate n (CHR ''x'')),
      listLatestArtifacts = (\<lambda>t. Inr example_listing),
      requests_get = example_get,
      gpg_import = (\<lambda>d k. True),
      gpg_verify = (\<lambda>fs d s c. fs s = Some ''SIGNATURE'' \<and> fs c \<noteq> None),
      sha512_hexdigest = (\<lambda>c. ''sha:'' @ c)\<rparr>"

definition bad_signature_env :: sanity_env where
  "bad_signature_env = good_env\<lparr>gpg_verify := (\<lambda>fs d s c. False)\<rparr>"

definition failed_fetch_env :: sanity_env where
  "failed_fetch_env =
     good_env\<lparr>listLatestArtifacts :=
       (\<lambda>t. Inr (example_listing @ [''public/build/firefox.complete.mar'']))\<rparr>"

definition broken_manifest_env :: sanity_env where
  "broken_manifest_env =
     good_env\<lparr>requests_get :=
       (\<lambda>t a. if a = ''public/build/firefox.checksums'' then Content broken_manifest
              else example_get t a)\<rparr>"

definition no_manifest_env :: sanity_env where
  "no_manifest_env =
     good_env\<lparr>listLatestArtifacts :=
       (\<lambda>t. Inr [''public/build/firefox.checksums.asc'', ''public/build/firefox.exe''])\<rparr>"

definition no_signature_env :: sanity_env where
  "no_signature_env =
     good_env\<lparr>listLatestArtifacts :=
       (\<lambda>t. Inr [''public/build/firefox.exe'', ''public/build/firefox.checksums''])\<rparr>"

definition empty_world :: world where
  "empty_world =
     \<lparr>dirs = {}, files = Map.empty, mkdtemp_count = 0, requested = [], calls = []\<rparr>"

text \<open>
  A beta branch whose only channel needs a mirror push, a release branch with the
  mappings of the documentation, and collaborators that succeed; the en-US binary of
  version 40.0b2 is the corrupted one of task \<open>task2\<close>.
\<close>

definition pattern_beta :: string where
  "pattern_beta = ''^'' @ [backslash] @ ''d+'' @ [backslash] @ ''.0b'' @ [backslash] @ ''d+$''"

definition beta_config :: branch_config where
  "beta_config =
     \<lparr>bc_release_channel_mappings = Some [(pattern_beta, [''beta''])],
      bc_mirror_requiring_channels = Some [''beta''],
      bc_postrelease_version_bump_enabled = Some True,
      bc_postrelease_bouncer_aliases_enabled = Some True\<rparr>"

definition release_config :: branch_config where
  "release_config =
     \<lparr>bc_release_channel_mappings = Some doc_mappings,
      bc_mirror_requiring_channels = None,
      bc_postrelease_version_bump_enabled = Some True,
      bc_postrelease_bouncer_aliases_enabled = Some False\<rparr>"

definition two_channel_config :: branch_config where
  "two_channel_config =
     \<lparr>bc_release_channel_mappings = Some [(pattern_beta, [''aurora'', ''beta''])],
      bc_mirror_requiring_channels = Some [''beta''],
      bc_postrelease_version_bump_enabled = Some True,
      bc_postrelease_bouncer_aliases_enabled = Some True\<rparr>"

definition example_branch_config :: "string \<Rightarrow> exn + branch_config" where
  "example_branch_config br =
     (if br = ''mozilla-beta'' then Inr beta_config
      else if br = ''mozilla-release'' then Inr release_config
      else Inl (IOError br))"

definition beta_release :: "string \<Rightarrow> release" where
  "beta_release v =
     \<lparr>name = ''Firefox-'' @ v @ ''-build1'', version = v, branch = ''releases/mozilla-beta'',
      product = ''firefox'', mozillaRevision = ''0123abcd''\<rparr>"

definition final_release :: release where
  "final_release =
     \<lparr>name = ''Firefox-40.0.1-build1'', version = ''40.0.1'',
      branch = ''releases/mozilla-release'', product = ''firefox'',
      mozillaRevision = ''4567cdef''\<rparr>"

definition example_collab :: collaborators where
  "example_collab =
     \<lparr>slugId = (\<lambda>n. ''slug'' @ replicate n (CHR ''A'')),
      prepare_configs = None,
      readBranchConfig = example_branch_config,
      regex_match = py_re_match,
      is_candidate = (\<lambda>chans. ''release'' \<notin> set chans),
      update_status = (\<lambda>r s. None),
      other_kwargs = (\<lambda>r br. Inr [if version r = ''40.0b2'' then ''task2'' else ''task1'']),
      sanity = good_env,
      gpg_key_path = ''key.gpg'',
      release_sanitizer = (\<lambda>kw. None),
      make_task_graph_strict_kwargs = (\<lambda>kw. Inr (''graph of '' @ kw_version kw)),
      createTaskGraph = (\<lambda>g graph. None),
      mark_as_completed = (\<lambda>r. None),
      email_release_drivers = (\<lambda>r g. None),
      mark_as_failed = (\<lambda>r m. None)\<rparr>"


definition beta_decision :: channel_decision where
  "beta_decision =
     \<lparr>release_channels = [''beta''], final_verify_channels = [],
      publish_to_balrog_channels = [], postrelease_enabled = False,
      postrelease_bouncer_aliases_enabled = False, push_to_releases_enabled = False\<rparr>"

definition three_releases :: "release list" where
  "three_releases = [beta_release ''40.0b1'', beta_release ''40.0b2'', beta_release ''40.0b3'']"

definition mixed_wave :: "poll list" where
  "mixed_wave = [NewReleases [], NewReleases [final_release, beta_release ''40.0b1'']]"

definition unmapped_wave :: "poll list" where
  "unmapped_wave = [NewReleases [beta_release ''40.0b1'', beta_release ''99.9.9'']]"

section \<open>Theorems\<close>

lemma update_channels_find:
  "update_channels m v maps =
     (case find (\<lambda>(p, cs). m p v) maps of
        None \<Rightarrow> Inl (RuntimeError (''Cannot find update channels for '' @ v))
      | Some (p, cs) \<Rightarrow> Inr cs)"
  by (induction maps) auto

lemma re_compile_pattern_x0:
  "re_compile pattern_x0 = Some [Bol, Many Digit, One (Lit CHR ''.''), One (Lit CHR ''0''), Eol]"
  by (simp add: pattern_x0_def backslash_def is_plain_def)

lemma re_compile_pattern_xyz:
  "re_compile pattern_xyz =
     Some [Bol, Many Digit, One (Lit CHR ''.''), Many Digit, One (Lit CHR ''.''), Many Digit, Eol]"
  by (simp add: pattern_xyz_def backslash_def is_plain_def)

text \<open>
  C5. \<open>update_channels\<close> returns the channels of the first entry of the mapping list, in
  its declared order, whose pattern matches the version, and raises the RuntimeError
  ``Cannot find update channels for <version>'' when no entry matches. With the two
  patterns of the docstring, version 40.0 gives beta and release, version 40.0.1 gives
  release, and an empty mapping list raises for every version.
\<close>

theorem update_channels_first_match:
  "update_channels m v maps =
     (case find (\<lambda>(p, cs). m p v) maps of
        None \<Rightarrow> Inl (RuntimeError (''Cannot find update channels for '' @ v))
      | Some (p, cs) \<Rightarrow> Inr cs)
   \<and> update_channels py_re_match ''40.0'' doc_mappings = Inr [''beta'', ''release'']
   \<and> update_channels py_re_match ''40.0.1'' doc_mappings = Inr [''release'']
   \<and> update_channels m v [] = Inl (RuntimeError (''Cannot find update channels for '' @ v))"
proof -
  have ex1: "update_channels py_re_match ''40.0'' doc_mappings = Inr [''beta'', ''release'']"
    by (simp add: doc_mappings_def py_re_match_def re_compile_pattern_x0 is_digit_def)
  have ex2: "update_channels py_re_match ''40.0.1'' doc_mappings = Inr [''release'']"
    by (simp add: doc_mappings_def py_re_match_def re_compile_pattern_x0
        re_compile_pattern_xyz is_digit_def)
  show ?thesis
    using ex1 ex2 update_channels_find [of m v maps] by simp
qed

subsection \<open>The manifest parser\<close>

lemma unpack4_Inr: "length xs = 4 \<Longrightarrow> \<exists>a b c d. xs = [a, b, c, d] \<and> unpack4 xs = Inr (a, b, c, d)"
  by (cases xs rule: unpack4.cases) auto

lemma unpack4_Inl: "length xs \<noteq> 4 \<Longrightarrow> unpack4 xs = Inl (ValueError (unpack_message (length xs)))"
  by (cases xs rule: unpack4.cases) auto

lemma parse_lines_malformed:
  "l \<in> set ls \<Longrightarrow> length (py_split l) \<noteq> 4 \<Longrightarrow> \<exists>m. parse_lines d ls = Inl (ValueError m)"
proof (induction ls arbitrary: d)
  case Nil
  then show ?case by simp
next
  case (Cons x xs)
  show ?case
  proof (cases "length (py_split x) = 4")
    case True
    with Cons.prems have "l \<in> set xs" by auto
    from True obtain a b c e where "unpack4 (py_split x) = Inr (a, b, c, e)"
      using unpack4_Inr by blast
    then show ?thesis using Cons.IH [OF \<open>l \<in> set xs\<close> Cons.prems(2)] by simp
  next
    case False
    then show ?thesis by (simp add: unpack4_Inl)
  qed
qed












text \<open>
  C9. When some line of the manifest file does not split into exactly four
  whitespace-separated fields, \<open>parse_sha512\<close> fails: the tuple assignment raises
  ValueError, the error of a malformed manifest.
\<close>

theorem parse_sha512_malformed:
  assumes "files w checksums = Some content"
    and "l \<in> set (readlines content)"
    and "length (py_split l) \<noteq> 4"
  shows "\<exists>m. parse_sha512 w checksums whitelist = Inl (ValueError m)"
proof -
  from parse_lines_malformed [OF assms(2,3), of "[]"]
  obtain m where "parse_lines [] (readlines content) = Inl (ValueError m)" by blast
  then show ?thesis by (simp add: parse_sha512_def assms(1))
qed

lemma broken_lines: "readlines broken_manifest =
   [''aa11 sha512 10 win32/firefox.exe'' @ newline, ''bb22 sha512 firefox.dmg'' @ newline]"
  by (simp add: readlines_def broken_manifest_def newline_def)

theorem parse_sha512_malformed_witness:
  "files (manifest_world broken_manifest) ''/tmp/t0/firefox.checksums'' = Some broken_manifest
   \<and> ''bb22 sha512 firefox.dmg'' @ newline \<in> set (readlines broken_manifest)
   \<and> length (py_split (''bb22 sha512 firefox.dmg'' @ newline)) \<noteq> 4
   \<and> (\<exists>m. parse_sha512 (manifest_world broken_manifest) ''/tmp/t0/firefox.checksums''
              (set_minus ALL_FILES CHECKSUMS) = Inl (ValueError m))"
proof -
  have h1: "files (manifest_world broken_manifest) ''/tmp/t0/firefox.checksums''
              = Some broken_manifest"
    by (simp add: manifest_world_def)
  have h2: "''bb22 sha512 firefox.dmg'' @ newline \<in> set (readlines broken_manifest)"
    by (simp add: broken_lines)
  have h3: "length (py_split (''bb22 sha512 firefox.dmg'' @ newline)) \<noteq> 4"
    by (simp add: newline_def py_split_def py_isspace_def)
  from parse_sha512_malformed [OF h1 h2 h3, of "set_minus ALL_FILES CHECKSUMS"] h1 h2 h3
  show ?thesis by simp
qed

subsection \<open>The sanitation run and its workspace\<close>

lemma requested_write_file [simp]: "requested (write_file p c w) = requested w"
  by (simp add: write_file_def)

lemma dirs_write_file [simp]: "dirs (write_file p c w) = dirs w"
  by (simp add: write_file_def)

lemma calls_write_file [simp]: "calls (write_file p c w) = calls w"
  by (simp add: write_file_def)

lemma fetch_checksums_keeps:
  "dirs (snd (fetch_checksums env artifacts task_id tempdir vars w)) = dirs w
   \<and> calls (snd (fetch_checksums env artifacts task_id tempdir vars w)) = calls w"
proof (induction env artifacts task_id tempdir vars w rule: fetch_checksums.induct)
  case (1 env task_id tempdir vars w)
  show ?case by simp
next
  case (2 env artifact artifacts task_id tempdir checksums signature w)
  show ?case
  proof (cases "requests_get env task_id artifact")
    case (Content body)
    then show ?thesis using 2 by simp
  next
    case (Raises e)
    then show ?thesis by simp
  qed
qed

lemma download_loop_keeps:
  "dirs (snd (download_loop env artifacts task_id d f w)) = dirs w
   \<and> calls (snd (download_loop env artifacts task_id d f w)) = calls w"
proof (induction artifacts arbitrary: f w)
  case Nil
  show ?case by simp
next
  case (Cons a artifacts)
  show ?case
  proof (cases "requests_get env task_id a")
    case (Content body)
    then show ?thesis using Cons.IH by simp
  next
    case (Raises e)
    then show ?thesis using Cons.IH by simp
  qed
qed

lemma download_all_artifacts_keeps:
  "dirs (snd (download_all_artifacts env artifacts task_id d w)) = dirs w
   \<and> calls (snd (download_all_artifacts env artifacts task_id d w)) = calls w"
proof -
  obtain r w' where rw: "download_loop env artifacts task_id d False w = (r, w')"
    by (cases "download_loop env artifacts task_id d False w")
  with download_loop_keeps [of env artifacts task_id d False w]
  have "dirs w' = dirs w \<and> calls w' = calls w" by simp
  then show ?thesis
    by (cases r) (simp_all add: download_all_artifacts_def rw)
qed

lemma verify_and_check_workspace:
  assumes "tempdir \<in> dirs w"
  shows "(tempdir \<in> dirs (snd (verify_and_check env task_id key tempdir others checksums signature w))
            \<longleftrightarrow> isl (fst (verify_and_check env task_id key tempdir others checksums signature w)))
         \<and> calls (snd (verify_and_check env task_id key tempdir others checksums signature w)) = calls w"
proof -
  obtain r w1 where rw: "download_all_artifacts env others task_id tempdir w = (r, w1)"
    by (cases "download_all_artifacts env others task_id tempdir w")
  with download_all_artifacts_keeps [of env others task_id tempdir w]
  have k: "dirs w1 = dirs w" "calls w1 = calls w" by simp_all
  show ?thesis
    using assms k
    by (simp add: verify_and_check_def rw rmtree_def split: sum.splits)
qed

lemma sanitize_en_US_binary_workspace:
  "(mkdtemp_name env (mkdtemp_count w) \<in> dirs (snd (sanitize_en_US_binary env task_id key w))
      \<longleftrightarrow> isl (fst (sanitize_en_US_binary env task_id key w)))
   \<and> calls (snd (sanitize_en_US_binary env task_id key w)) = calls w"
proof (cases "listLatestArtifacts env task_id")
  case (Inl e)
  then show ?thesis by (simp add: sanitize_en_US_binary_def mkdtemp_def)
next
  case (Inr all_artifacts)
  let ?t = "mkdtemp_name env (mkdtemp_count w)"
  let ?w0 = "w\<lparr>dirs := insert ?t (dirs w), mkdtemp_count := Suc (mkdtemp_count w)\<rparr>"
  let ?cs = "filter (\<lambda>k. file_in_whitelist k CHECKSUMS) all_artifacts"
  obtain r w1 where rw: "fetch_checksums env ?cs task_id ?t (None, None) ?w0 = (r, w1)"
    by (cases "fetch_checksums env ?cs task_id ?t (None, None) ?w0")
  with fetch_checksums_keeps [of env ?cs task_id ?t "(None, None)" ?w0]
  have k: "?t \<in> dirs w1" "calls w1 = calls w" by simp_all
  show ?thesis
  proof (cases r)
    case (Inl e)
    then show ?thesis using k by (simp add: sanitize_en_US_binary_def mkdtemp_def Inr rw)
  next
    case r: (Inr vars)
    obtain c s where vars: "vars = (c, s)" by (cases vars)
    show ?thesis
    proof (cases c)
      case None
      then show ?thesis using k by (simp add: sanitize_en_US_binary_def mkdtemp_def Inr rw r vars)
    next
      case c: (Some checksums)
      show ?thesis
      proof (cases s)
        case None
        then show ?thesis
          using k by (simp add: sanitize_en_US_binary_def mkdtemp_def Inr rw r vars c)
      next
        case (Some signature)
        then show ?thesis
          using k verify_and_check_workspace [OF k(1)]
          by (simp add: sanitize_en_US_binary_def mkdtemp_def Inr rw r vars c)
      qed
    qed
  qed
qed

subsection \<open>The batch download\<close>

lemma download_loop_http_only:
  assumes "\<forall>a\<in>set artifacts. \<forall>e. requests_get env task_id a = Raises e \<longrightarrow> is_HTTPError e"
  shows "fst (download_loop env artifacts task_id d f w)
           = Inr (f \<or> (\<exists>a\<in>set artifacts. \<exists>e. requests_get env task_id a = Raises e))
         \<and> requested (snd (download_loop env artifacts task_id d f w))
           = requested w @ map (Pair task_id) artifacts"
  using assms
proof (induction artifacts arbitrary: f w)
  case Nil
  show ?case by simp
next
  case (Cons a artifacts)
  then have rest: "\<forall>b\<in>set artifacts. \<forall>e. requests_get env task_id b = Raises e \<longrightarrow> is_HTTPError e"
    by simp
  show ?case
  proof (cases "requests_get env task_id a")
    case (Content body)
    then show ?thesis using Cons.IH [OF rest] by simp
  next
    case (Raises e)
    with Cons.prems have "is_HTTPError e" by simp
    with Raises show ?thesis using Cons.IH [OF rest] by simp
  qed
qed

lemma download_loop_propagates:
  assumes "\<forall>b\<in>set pre. \<forall>e. requests_get env task_id b = Raises e \<longrightarrow> is_HTTPError e"
    and "requests_get env task_id a = Raises e" and "\<not> is_HTTPError e"
  shows "fst (download_loop env (pre @ a # post) task_id d f w) = Inl e
         \<and> requested (snd (download_loop env (pre @ a # post) task_id d f w))
           = requested w @ map (Pair task_id) (pre @ [a])"
  using assms(1)
proof (induction pre arbitrary: f w)
  case Nil
  show ?case using assms(2,3) by simp
next
  case (Cons b pre)
  then have rest: "\<forall>c\<in>set pre. \<forall>e. requests_get env task_id c = Raises e \<longrightarrow> is_HTTPError e"
    by simp
  show ?case
  proof (cases "requests_get env task_id b")
    case (Content body)
    then show ?thesis using Cons.IH [OF rest] by simp
  next
    case (Raises e')
    with Cons.prems have "is_HTTPError e'" by simp
    with Raises show ?thesis using Cons.IH [OF rest] by simp
  qed
qed

text \<open>
  C7, as the code has it. \<open>download_all_artifacts\<close> catches \<open>requests.HTTPError\<close> only.
  When no download raises any other exception, every artifact is requested, in order,
  and the batch raises the SanityException ``Downloading artifacts failed'' after the
  loop exactly when some download raised an HTTPError. The first download that raises
  another exception ends the batch at once with that exception; the artifacts after it
  are not requested.
\<close>

theorem download_all_artifacts_http_errors:
  "((\<forall>a\<in>set artifacts. \<forall>e. requests_get env task_id a = Raises e \<longrightarrow> is_HTTPError e) \<longrightarrow>
      requested (snd (download_all_artifacts env artifacts task_id d w))
        = requested w @ map (Pair task_id) artifacts
      \<and> fst (download_all_artifacts env artifacts task_id d w)
        = (if \<exists>a\<in>set artifacts. \<exists>e. requests_get env task_id a = Raises e
           then Inl (SanityException ''Downloading artifacts failed'') else Inr ()))
   \<and> ((\<forall>b\<in>set pre. \<forall>e. requests_get env task_id b = Raises e \<longrightarrow> is_HTTPError e)
        \<and> requests_get env task_id a = Raises e \<and> \<not> is_HTTPError e \<longrightarrow>
      fst (download_all_artifacts env (pre @ a # post) task_id d w) = Inl e
      \<and> requested (snd (download_all_artifacts env (pre @ a # post) task_id d w))
        = requested w @ map (Pair task_id) (pre @ [a]))"
proof (intro conjI impI)
  assume h: "\<forall>a\<in>set artifacts. \<forall>e. requests_get env task_id a = Raises e \<longrightarrow> is_HTTPError e"
  obtain r w' where rw: "download_loop env artifacts task_id d False w = (r, w')"
    by (cases "download_loop env artifacts task_id d False w")
  from download_loop_http_only [OF h, of d False w] rw
  have r: "r = Inr (\<exists>a\<in>set artifacts. \<exists>e. requests_get env task_id a = Raises e)"
    and q: "requested w' = requested w @ map (Pair task_id) artifacts"
    by simp_all
  show "requested (snd (download_all_artifacts env artifacts task_id d w))
        = requested w @ map (Pair task_id) artifacts"
    using q by (simp add: download_all_artifacts_def rw r)
  show "fst (download_all_artifacts env artifacts task_id d w)
        = (if \<exists>a\<in>set artifacts. \<exists>e. requests_get env task_id a = Raises e
           then Inl (SanityException ''Downloading artifacts failed'') else Inr ())"
    by (simp add: download_all_artifacts_def rw r)
next
  assume h: "(\<forall>b\<in>set pre. \<forall>e. requests_get env task_id b = Raises e \<longrightarrow> is_HTTPError e)
        \<and> requests_get env task_id a = Raises e \<and> \<not> is_HTTPError e"
  obtain r w' where rw: "download_loop env (pre @ a # post) task_id d False w = (r, w')"
    by (cases "download_loop env (pre @ a # post) task_id d False w")
  from h download_loop_propagates [of pre env task_id a e post d False w] rw
  have r: "r = Inl e" and q: "requested w' = requested w @ map (Pair task_id) (pre @ [a])"
    by simp_all
  show "fst (download_all_artifacts env (pre @ a # post) task_id d w) = Inl e"
    by (simp add: download_all_artifacts_def rw r)
  show "requested (snd (download_all_artifacts env (pre @ a # post) task_id d w))
        = requested w @ map (Pair task_id) (pre @ [a])"
    using q by (simp add: download_all_artifacts_def rw r)
qed

text \<open>
  C7 as stated fails: a connection error on the first of two downloads leaves the batch
  as itself, and the second artifact is never requested.
\<close>

theorem download_all_artifacts_counterexample:
  "fst (download_all_artifacts good_env [''public/build/firefox.dmg'', ''public/build/firefox.exe'']
          ''task1'' ''/tmp/tmp'' empty_world) = Inl (OtherException ''ConnectionError'')
   \<and> requested (snd (download_all_artifacts good_env
          [''public/build/firefox.dmg'', ''public/build/firefox.exe''] ''task1'' ''/tmp/tmp'' empty_world))
       = [(''task1'', ''public/build/firefox.dmg'')]"
  by code_simp

lemma example_get_http_only:
  "\<forall>a\<in>set [''public/build/firefox.complete.mar'', ''public/build/firefox.exe''].
     \<forall>e. requests_get good_env ''task1'' a = Raises e \<longrightarrow> is_HTTPError e"
  by (simp add: good_env_def example_get_def)

theorem download_all_artifacts_http_errors_witness:
  "requested (snd (download_all_artifacts good_env
       [''public/build/firefox.complete.mar'', ''public/build/firefox.exe''] ''task1'' ''/tmp/tmp''
       empty_world))
     = [(''task1'', ''public/build/firefox.complete.mar''), (''task1'', ''public/build/firefox.exe'')]
   \<and> fst (download_all_artifacts good_env
       [''public/build/firefox.complete.mar'', ''public/build/firefox.exe''] ''task1'' ''/tmp/tmp''
       empty_world) = Inl (SanityException ''Downloading artifacts failed'')
   \<and> fst (download_all_artifacts good_env
       ([''public/build/firefox.complete.mar''] @ ''public/build/firefox.dmg'' # [''public/build/firefox.exe''])
       ''task1'' ''/tmp/tmp'' empty_world) = Inl (OtherException ''ConnectionError'')"
proof -
  have g1: "requests_get good_env ''task1'' ''public/build/firefox.complete.mar''
              = Raises (HTTPError ''404 Client Error'')"
    by (simp add: good_env_def example_get_def)
  have g2: "requests_get good_env ''task1'' ''public/build/firefox.dmg''
              = Raises (OtherException ''ConnectionError'')"
    by (simp add: good_env_def example_get_def)
  have h2: "\<forall>b\<in>set [''public/build/firefox.complete.mar''].
     \<forall>e. requests_get good_env ''task1'' b = Raises e \<longrightarrow> is_HTTPError e"
    by (simp add: g1)
  from download_all_artifacts_http_errors [of
      "[''public/build/firefox.complete.mar'', ''public/build/firefox.exe'']" good_env "''task1''"
      "''/tmp/tmp''" empty_world "[''public/build/firefox.complete.mar'']"
      "''public/build/firefox.dmg''" "OtherException ''ConnectionError''"
      "[''public/build/firefox.exe'']"]
    example_get_http_only h2 g1 g2
  show ?thesis by (simp add: empty_world_def)
qed

text \<open>
  C1. The workspace is removed on full success only. On a signature failure, a failed
  batch download, a malformed manifest and a checksum mismatch the exception leaves
  \<open>sanitize_en_US_binary\<close> before \<open>shutil.rmtree\<close> is reached, and the temporary
  directory is still there.
\<close>

theorem sanitize_en_US_binary_leaves_workspace:
  "fst (sanitize_en_US_binary bad_signature_env ''task1'' ''key.gpg'' empty_world)
     = Inl (SanityException ''GPG signature check failed'')
   \<and> ''/tmp/tmp'' \<in> dirs (snd (sanitize_en_US_binary bad_signature_env ''task1'' ''key.gpg'' empty_world))
   \<and> fst (sanitize_en_US_binary failed_fetch_env ''task1'' ''key.gpg'' empty_world)
     = Inl (SanityException ''Downloading artifacts failed'')
   \<and> ''/tmp/tmp'' \<in> dirs (snd (sanitize_en_US_binary failed_fetch_env ''task1'' ''key.gpg'' empty_world))
   \<and> fst (sanitize_en_US_binary broken_manifest_env ''task1'' ''key.gpg'' empty_world)
     = Inl (ValueError ''need more than 3 values to unpack'')
   \<and> ''/tmp/tmp'' \<in> dirs (snd (sanitize_en_US_binary broken_manifest_env ''task1'' ''key.gpg'' empty_world))
   \<and> fst (sanitize_en_US_binary good_env ''task2'' ''key.gpg'' empty_world)
     = Inl (SanityException ''Failed to check digest for firefox.exe'')
   \<and> ''/tmp/tmp'' \<in> dirs (snd (sanitize_en_US_binary good_env ''task2'' ''key.gpg'' empty_world))
   \<and> fst (sanitize_en_US_binary good_env ''task1'' ''key.gpg'' empty_world) = Inr ()
   \<and> ''/tmp/tmp'' \<notin> dirs (snd (sanitize_en_US_binary good_env ''task1'' ''key.gpg'' empty_world))"
  by code_simp

text \<open>
  C8. With a listing that holds no checksums manifest (or no signature) and downloads
  that succeed, the loop over the checksums artifacts never assigns \<open>checksums\<close> (or
  \<open>signature\<close>), and the call of \<open>validate_signatures\<close> raises UnboundLocalError, not a
  SanityException. With both present, in either order, the run goes through.
\<close>

theorem sanitize_en_US_binary_missing_manifest:
  "fst (sanitize_en_US_binary no_manifest_env ''task1'' ''key.gpg'' empty_world)
     = Inl (UnboundLocalError (''local variable '' @ [CHR 0x27] @ ''checksums'' @ [CHR 0x27]
                                 @ '' referenced before assignment''))
   \<and> fst (sanitize_en_US_binary no_signature_env ''task1'' ''key.gpg'' empty_world)
     = Inl (UnboundLocalError (''local variable '' @ [CHR 0x27] @ ''signature'' @ [CHR 0x27]
                                 @ '' referenced before assignment''))
   \<and> fst (sanitize_en_US_binary good_env ''task1'' ''key.gpg'' empty_world) = Inr ()
   \<and> fst (sanitize_en_US_binary
            (good_env\<lparr>listLatestArtifacts := (\<lambda>t. Inr (rev example_listing))\<rparr>)
            ''task1'' ''key.gpg'' empty_world) = Inr ()"
  by code_simp

subsection \<open>The release loop\<close>

lemma calls_issue [simp]: "calls (issue x w) = calls w @ [x]"
  by (simp add: issue_def)

lemma sanitize_platforms_calls:
  "calls (snd (sanitize_platforms env task_ids key w)) = calls w"
proof (induction task_ids arbitrary: w)
  case Nil
  show ?case by simp
next
  case (Cons t ts)
  obtain r w1 where rw: "sanitize_en_US_binary env t key w = (r, w1)"
    by (cases "sanitize_en_US_binary env t key w")
  with sanitize_en_US_binary_workspace [of env w t key] have "calls w1 = calls w" by simp
  then show ?case using Cons.IH [of w1] by (cases r) (simp_all add: rw)
qed

lemma validate_graph_kwargs_calls:
  "calls (snd (validate_graph_kwargs c kwargs w)) = calls w"
proof -
  obtain r w1 where rw:
    "sanitize_platforms (sanity c) (kw_en_US_task_ids kwargs) (gpg_key_path c) w = (r, w1)"
    by (cases "sanitize_platforms (sanity c) (kw_en_US_task_ids kwargs) (gpg_key_path c) w")
  with sanitize_platforms_calls [of "sanity c" "kw_en_US_task_ids kwargs" "gpg_key_path c" w]
  have "calls w1 = calls w" by simp
  then show ?thesis
    by (cases r) (simp_all add: validate_graph_kwargs_def rw split: option.splits)
qed

lemma submit_graph_calls:
  "\<exists>cs. calls (snd (submit_graph c rel g kwargs w)) = calls w @ MakeTaskGraph kwargs # cs
        \<and> (\<forall>kw. MakeTaskGraph kw \<notin> set cs)"
  by (simp add: submit_graph_def split: sum.splits option.splits)

lemma process_release_calls:
  "\<exists>cs. calls (snd (process_release c br dec rel g w))
          = calls w @ UpdateStatus rel ''Generating task graph'' # cs
        \<and> (\<forall>kw. MakeTaskGraph kw \<in> set cs \<longrightarrow> (\<exists>ids. kw = make_kwargs br dec rel ids))"
proof (cases "update_status c rel ''Generating task graph''")
  case (Some e)
  then show ?thesis by (simp add: process_release_def)
next
  case None
  show ?thesis
  proof (cases "other_kwargs c rel br")
    case (Inl e)
    then show ?thesis using None by (simp add: process_release_def)
  next
    case (Inr ids)
    let ?kw = "make_kwargs br dec rel ids"
    let ?w0 = "issue (UpdateStatus rel ''Generating task graph'') w"
    obtain r w1 where rw: "validate_graph_kwargs c ?kw ?w0 = (r, w1)"
      by (cases "validate_graph_kwargs c ?kw ?w0")
    with validate_graph_kwargs_calls [of c ?kw ?w0]
    have k: "calls w1 = calls w @ [UpdateStatus rel ''Generating task graph'']" by simp
    show ?thesis
    proof (cases r)
      case (Inl e)
      then show ?thesis using None Inr rw k by (simp add: process_release_def)
    next
      case r: (Inr u)
      from submit_graph_calls [of c rel g ?kw w1]
      obtain cs where cs: "calls (snd (submit_graph c rel g ?kw w1)) = calls w1 @ MakeTaskGraph ?kw # cs"
        "\<forall>kw. MakeTaskGraph kw \<notin> set cs" by blast
      have "calls (snd (process_release c br dec rel g w))
          = calls w @ UpdateStatus rel ''Generating task graph'' # (MakeTaskGraph ?kw # cs)"
        using None Inr rw r cs(1) k by (simp add: process_release_def)
      moreover have "\<forall>kw. MakeTaskGraph kw \<in> set (MakeTaskGraph ?kw # cs)
                       \<longrightarrow> (\<exists>ids. kw = make_kwargs br dec rel ids)"
        using cs(2) by auto
      ultimately show ?thesis by blast
    qed
  qed
qed







subsection \<open>The channel decision and the wave\<close>

text \<open>
  C4. Given the channels that \<open>update_channels\<close> returns. For a candidate release the
  decision disables the post-release steps and the push to releases, and the channels
  to verify and to publish are the release channels without every channel listed under
  the key \<open>mirror_requiring_channels\<close> of the branch configuration; when the
  configuration has no such key nothing is removed. For a final release the two
  post-release flags are the values of the branch configuration, the channels to
  verify and to publish are the release channels unchanged, and the push to releases
  is enabled.
\<close>

theorem decide_candidate_and_final:
  assumes "bc_release_channel_mappings bc = Some mappings"
    and "update_channels m ver mappings = Inr chans"
  shows "(cand chans \<and> bc_mirror_requiring_channels bc = Some mirror \<longrightarrow>
            decide m cand ver bc =
              Inr \<lparr>release_channels = chans,
                   final_verify_channels = filter (\<lambda>c. c \<notin> set mirror) chans,
                   publish_to_balrog_channels = filter (\<lambda>c. c \<notin> set mirror) chans,
                   postrelease_enabled = False,
                   postrelease_bouncer_aliases_enabled = False,
                   push_to_releases_enabled = False\<rparr>)
         \<and> (cand chans \<and> bc_mirror_requiring_channels bc = None \<longrightarrow>
            decide m cand ver bc =
              Inr \<lparr>release_channels = chans,
                   final_verify_channels = chans,
                   publish_to_balrog_channels = chans,
                   postrelease_enabled = False,
                   postrelease_bouncer_aliases_enabled = False,
                   push_to_releases_enabled = False\<rparr>)
         \<and> (\<not> cand chans \<and> bc_postrelease_version_bump_enabled bc = Some bump
              \<and> bc_postrelease_bouncer_aliases_enabled bc = Some aliases \<longrightarrow>
            decide m cand ver bc =
              Inr \<lparr>release_channels = chans,
                   final_verify_channels = chans,
                   publish_to_balrog_channels = chans,
                   postrelease_enabled = bump,
                   postrelease_bouncer_aliases_enabled = aliases,
                   push_to_releases_enabled = True\<rparr>)"
  using assms by (simp add: decide_def)

lemma re_compile_pattern_beta:
  "re_compile pattern_beta =
     Some [Bol, Many Digit, One (Lit CHR ''.''), One (Lit CHR ''0''), One (Lit CHR ''b''),
           Many Digit, Eol]"
  by (simp add: pattern_beta_def backslash_def is_plain_def)

lemma beta_channels:
  "update_channels py_re_match ''40.0b1'' [(pattern_beta, [''beta''])] = Inr [''beta'']"
  by (simp add: py_re_match_def re_compile_pattern_beta is_digit_def)

lemma final_channels: "update_channels py_re_match ''40.0.1'' doc_mappings = Inr [''release'']"
  by (simp add: doc_mappings_def py_re_match_def re_compile_pattern_x0
      re_compile_pattern_xyz is_digit_def)

lemma two_channels:
  "update_channels py_re_match ''40.0b1'' [(pattern_beta, [''aurora'', ''beta''])]
     = Inr [''aurora'', ''beta'']"
  by (simp add: py_re_match_def re_compile_pattern_beta is_digit_def)

theorem decide_candidate_and_final_witness:
  "decide py_re_match (\<lambda>chans. ''release'' \<notin> set chans) ''40.0b1'' beta_config =
     Inr \<lparr>release_channels = [''beta''], final_verify_channels = [],
          publish_to_balrog_channels = [], postrelease_enabled = False,
          postrelease_bouncer_aliases_enabled = False, push_to_releases_enabled = False\<rparr>
   \<and> decide py_re_match (\<lambda>chans. ''release'' \<notin> set chans) ''40.0b1'' two_channel_config =
     Inr \<lparr>release_channels = [''aurora'', ''beta''], final_verify_channels = [''aurora''],
          publish_to_balrog_channels = [''aurora''], postrelease_enabled = False,
          postrelease_bouncer_aliases_enabled = False, push_to_releases_enabled = False\<rparr>
   \<and> decide py_re_match (\<lambda>chans. ''release'' \<notin> set chans) ''40.0b1''
       (two_channel_config\<lparr>bc_mirror_requiring_channels := Some []\<rparr>) =
     Inr \<lparr>release_channels = [''aurora'', ''beta''], final_verify_channels = [''aurora'', ''beta''],
          publish_to_balrog_channels = [''aurora'', ''beta''], postrelease_enabled = False,
          postrelease_bouncer_aliases_enabled = False, push_to_releases_enabled = False\<rparr>
   \<and> decide py_re_match (\<lambda>chans. ''release'' \<notin> set chans) ''40.0b1''
       (two_channel_config\<lparr>bc_mirror_requiring_channels := None\<rparr>) =
     Inr \<lparr>release_channels = [''aurora'', ''beta''], final_verify_channels = [''aurora'', ''beta''],
          publish_to_balrog_channels = [''aurora'', ''beta''], postrelease_enabled = False,
          postrelease_bouncer_aliases_enabled = False, push_to_releases_enabled = False\<rparr>
   \<and> decide py_re_match (\<lambda>chans. ''release'' \<notin> set chans) ''40.0.1'' release_config =
     Inr \<lparr>release_channels = [''release''], final_verify_channels = [''release''],
          publish_to_balrog_channels = [''release''], postrelease_enabled = True,
          postrelease_bouncer_aliases_enabled = False, push_to_releases_enabled = True\<rparr>"
proof -
  let ?cand = "\<lambda>chans. ''release'' \<notin> set chans"
  have b: "bc_release_channel_mappings beta_config = Some [(pattern_beta, [''beta''])]"
    by (simp add: beta_config_def)
  have t: "bc_release_channel_mappings two_channel_config
             = Some [(pattern_beta, [''aurora'', ''beta''])]"
    by (simp add: two_channel_config_def)
  have t0: "bc_release_channel_mappings (two_channel_config\<lparr>bc_mirror_requiring_channels := Some []\<rparr>)
             = Some [(pattern_beta, [''aurora'', ''beta''])]"
    by (simp add: two_channel_config_def)
  have tn: "bc_release_channel_mappings (two_channel_config\<lparr>bc_mirror_requiring_channels := None\<rparr>)
             = Some [(pattern_beta, [''aurora'', ''beta''])]"
    by (simp add: two_channel_config_def)
  have r: "bc_release_channel_mappings release_config = Some doc_mappings"
    by (simp add: release_config_def)
  from decide_candidate_and_final [OF b beta_channels, of ?cand "[''beta'']"]
  have 1: "decide py_re_match ?cand ''40.0b1'' beta_config =
     Inr \<lparr>release_channels = [''beta''], final_verify_channels = [],
          publish_to_balrog_channels = [], postrelease_enabled = False,
          postrelease_bouncer_aliases_enabled = False, push_to_releases_enabled = False\<rparr>"
    by (simp add: beta_config_def)
  from decide_candidate_and_final [OF t two_channels, of ?cand "[''beta'']"]
  have 2: "decide py_re_match ?cand ''40.0b1'' two_channel_config =
     Inr \<lparr>release_channels = [''aurora'', ''beta''], final_verify_channels = [''aurora''],
          publish_to_balrog_channels = [''aurora''], postrelease_enabled = False,
          postrelease_bouncer_aliases_enabled = False, push_to_releases_enabled = False\<rparr>"
    by (simp add: two_channel_config_def)
  from decide_candidate_and_final [OF t0 two_channels, of ?cand "[]"]
  have 3: "decide py_re_match ?cand ''40.0b1''
       (two_channel_config\<lparr>bc_mirror_requiring_channels := Some []\<rparr>) =
     Inr \<lparr>release_channels = [''aurora'', ''beta''], final_verify_channels = [''aurora'', ''beta''],
          publish_to_balrog_channels = [''aurora'', ''beta''], postrelease_enabled = False,
          postrelease_bouncer_aliases_enabled = False, push_to_releases_enabled = False\<rparr>"
    by simp
  from decide_candidate_and_final [OF tn two_channels, of ?cand]
  have 4: "decide py_re_match ?cand ''40.0b1''
       (two_channel_config\<lparr>bc_mirror_requiring_channels := None\<rparr>) =
     Inr \<lparr>release_channels = [''aurora'', ''beta''], final_verify_channels = [''aurora'', ''beta''],
          publish_to_balrog_channels = [''aurora'', ''beta''], postrelease_enabled = False,
          postrelease_bouncer_aliases_enabled = False, push_to_releases_enabled = False\<rparr>"
    by simp
  from decide_candidate_and_final [OF r final_channels, of ?cand _ True False]
  have 5: "decide py_re_match ?cand ''40.0.1'' release_config =
     Inr \<lparr>release_channels = [''release''], final_verify_channels = [''release''],
          publish_to_balrog_channels = [''release''], postrelease_enabled = True,
          postrelease_bouncer_aliases_enabled = False, push_to_releases_enabled = True\<rparr>"
    by (simp add: release_config_def)
  from 1 2 3 4 5 show ?thesis by blast
qed


lemmas sanity_defs = sanitize_en_US_binary_def mkdtemp_def good_env_def empty_world_def
     example_listing_def example_get_def write_file_def path_join_def basename_def endswith_def
     verify_and_check_def validate_signatures_def download_all_artifacts_def parse_sha512_def
     readlines_def example_checksums_def newline_def py_split_def py_isspace_def
     set_minus_def ALL_FILES_def CHECKSUMS_def file_in_whitelist_def get_hash_def rmtree_def

lemmas runner_defs = run_wave_def process_release_def submit_graph_def validate_graph_kwargs_def
  make_kwargs_def example_collab_def three_releases_def beta_release_def beta_decision_def
  issue_def failure_message_def

lemma poll_loop_last:
  "poll_loop polls = Some (Inr (rel, rels)) \<Longrightarrow> rel = last rels \<and> rels \<noteq> []"
  by (induction polls rule: poll_loop.induct) auto

lemma release_loop_kwargs:
  "\<exists>cs. calls (snd (release_loop c br dec rels i rc w)) = calls w @ cs
        \<and> (\<forall>kw. MakeTaskGraph kw \<in> set cs \<longrightarrow>
              (\<exists>r\<in>set rels. \<exists>ids. kw = make_kwargs br dec r ids))"
proof (induction rels arbitrary: i rc w)
  case Nil
  show ?case by simp
next
  case (Cons rel rels)
  obtain r w1 where rw: "process_release c br dec rel (slugId c i) w = (r, w1)"
    by (cases "process_release c br dec rel (slugId c i) w")
  from process_release_calls [of c br dec rel "slugId c i" w] rw
  obtain c1 where c1: "calls w1 = calls w @ UpdateStatus rel ''Generating task graph'' # c1"
    "\<forall>kw. MakeTaskGraph kw \<in> set c1 \<longrightarrow> (\<exists>ids. kw = make_kwargs br dec rel ids)"
    by auto
  let ?m = "MarkAsFailed rel (failure_message (slugId c i))"
  show ?case
  proof (cases r)
    case (Inr u)
    from Cons.IH [of "Suc i" rc w1]
    obtain cs where cs: "calls (snd (release_loop c br dec rels (Suc i) rc w1)) = calls w1 @ cs"
      "\<forall>kw. MakeTaskGraph kw \<in> set cs \<longrightarrow> (\<exists>r\<in>set rels. \<exists>ids. kw = make_kwargs br dec r ids)"
      by blast
    have "calls (snd (release_loop c br dec (rel # rels) i rc w))
            = calls w @ (UpdateStatus rel ''Generating task graph'' # c1 @ cs)"
      using rw Inr cs(1) c1(1) by simp
    moreover have "\<forall>kw. MakeTaskGraph kw \<in> set (UpdateStatus rel ''Generating task graph'' # c1 @ cs)
       \<longrightarrow> (\<exists>r\<in>set (rel # rels). \<exists>ids. kw = make_kwargs br dec r ids)"
      using c1(2) cs(2) by auto
    ultimately show ?thesis by blast
  next
    case (Inl e)
    show ?thesis
    proof (cases "mark_as_failed c rel (failure_message (slugId c i))")
      case (Some e')
      have "calls (snd (release_loop c br dec (rel # rels) i rc w))
            = calls w @ (UpdateStatus rel ''Generating task graph'' # c1 @ [?m])"
        using rw Inl Some c1(1) by simp
      moreover have "\<forall>kw. MakeTaskGraph kw \<in> set (UpdateStatus rel ''Generating task graph'' # c1 @ [?m])
         \<longrightarrow> (\<exists>r\<in>set (rel # rels). \<exists>ids. kw = make_kwargs br dec r ids)"
        using c1(2) by auto
      ultimately show ?thesis by blast
    next
      case None
      from Cons.IH [of "Suc i" 2 "issue ?m w1"]
      obtain cs where cs:
        "calls (snd (release_loop c br dec rels (Suc i) 2 (issue ?m w1))) = calls (issue ?m w1) @ cs"
        "\<forall>kw. MakeTaskGraph kw \<in> set cs \<longrightarrow> (\<exists>r\<in>set rels. \<exists>ids. kw = make_kwargs br dec r ids)"
        by blast
      have "calls (snd (release_loop c br dec (rel # rels) i rc w))
            = calls w @ (UpdateStatus rel ''Generating task graph'' # c1 @ ?m # cs)"
        using rw Inl None cs(1) c1(1) by simp
      moreover have "\<forall>kw. MakeTaskGraph kw \<in> set (UpdateStatus rel ''Generating task graph'' # c1 @ ?m # cs)
         \<longrightarrow> (\<exists>r\<in>set (rel # rels). \<exists>ids. kw = make_kwargs br dec r ids)"
        using c1(2) cs(2) by auto
      ultimately show ?thesis by blast
    qed
  qed
qed

lemma run_wave_kwargs:
  "\<exists>cs. calls (snd (run_wave c br dec rels w)) = calls w @ cs
        \<and> (\<forall>kw. MakeTaskGraph kw \<in> set cs \<longrightarrow>
              (\<exists>r\<in>set rels. \<exists>ids. kw = make_kwargs br dec r ids))"
proof -
  obtain r w1 where rw: "release_loop c br dec rels 0 0 w = (r, w1)"
    by (cases "release_loop c br dec rels 0 0 w")
  have "snd (run_wave c br dec rels w) = w1"
    by (cases r) (simp_all add: run_wave_def rw)
  with release_loop_kwargs [of c br dec rels 0 0 w] rw show ?thesis by simp
qed

text \<open>
  C10. \<open>main\<close> takes the channel decision once, from the branch and the version of the
  last release of the wave, the one the discovery loop leaves bound. Every keyword
  dictionary handed to the graph builder in this run carries the channels and flags
  of that one decision and the short name of that one branch, whichever release of
  the wave it is built for.
\<close>

theorem main_single_channel_decision:
  assumes "poll_loop polls = Some (Inr (rel, rels))"
  shows "rel = last rels
     \<and> (\<exists>cs. calls (snd (main c polls w)) = calls w @ cs
         \<and> (\<forall>kw. MakeTaskGraph kw \<in> set cs \<longrightarrow>
              (\<exists>bc dec. readBranchConfig c (last (split_sep (CHR ''/'') [] (branch (last rels)))) = Inr bc
                 \<and> decide (regex_match c) (is_candidate c) (version (last rels)) bc = Inr dec
                 \<and> kw_release_channels kw = release_channels dec
                 \<and> kw_final_verify_channels kw = final_verify_channels dec
                 \<and> kw_publish_to_balrog_channels kw = publish_to_balrog_channels dec
                 \<and> kw_postrelease_version_bump_enabled kw = postrelease_enabled dec
                 \<and> kw_postrelease_bouncer_aliases_enabled kw = postrelease_bouncer_aliases_enabled dec
                 \<and> kw_push_to_releases_enabled kw = push_to_releases_enabled dec
                 \<and> kw_branch kw = last (split_sep (CHR ''/'') [] (branch (last rels)))
                 \<and> (\<exists>r\<in>set rels. kw_version kw = version r \<and> kw_repo_path kw = branch r))))"
proof -
  from poll_loop_last [OF assms] have rel: "rel = last rels" by simp
  let ?br = "last (split_sep (CHR ''/'') [] (branch rel))"
  let ?P = "\<lambda>cs. \<forall>kw. MakeTaskGraph kw \<in> set cs \<longrightarrow>
              (\<exists>bc dec. readBranchConfig c ?br = Inr bc
                 \<and> decide (regex_match c) (is_candidate c) (version rel) bc = Inr dec
                 \<and> kw_release_channels kw = release_channels dec
                 \<and> kw_final_verify_channels kw = final_verify_channels dec
                 \<and> kw_publish_to_balrog_channels kw = publish_to_balrog_channels dec
                 \<and> kw_postrelease_version_bump_enabled kw = postrelease_enabled dec
                 \<and> kw_postrelease_bouncer_aliases_enabled kw = postrelease_bouncer_aliases_enabled dec
                 \<and> kw_push_to_releases_enabled kw = push_to_releases_enabled dec
                 \<and> kw_branch kw = ?br
                 \<and> (\<exists>r\<in>set rels. kw_version kw = version r \<and> kw_repo_path kw = branch r))"
  have "\<exists>cs. calls (snd (main c polls w)) = calls w @ cs \<and> ?P cs"
  proof (cases "prepare_configs c")
    case (Some e)
    then have "calls (snd (main c polls w)) = calls w @ []" by (simp add: main_def assms)
    moreover have "?P []" by simp
    ultimately show ?thesis by blast
  next
    case None
    show ?thesis
    proof (cases "readBranchConfig c ?br")
      case (Inl e)
      then have "calls (snd (main c polls w)) = calls w @ []" by (simp add: main_def assms None)
      moreover have "?P []" by simp
      ultimately show ?thesis by blast
    next
      case bc: (Inr bc)
      show ?thesis
      proof (cases "decide (regex_match c) (is_candidate c) (version rel) bc")
        case (Inl e)
        then have "calls (snd (main c polls w)) = calls w @ []"
          by (simp add: main_def assms None bc)
        moreover have "?P []" by simp
        ultimately show ?thesis by blast
      next
        case dec: (Inr dec)
        have m: "main c polls w = run_wave c ?br dec rels w"
          by (simp add: main_def assms None bc dec)
        from run_wave_kwargs [of c ?br dec rels w]
        obtain cs where cs: "calls (snd (run_wave c ?br dec rels w)) = calls w @ cs"
          "\<forall>kw. MakeTaskGraph kw \<in> set cs \<longrightarrow> (\<exists>r\<in>set rels. \<exists>ids. kw = make_kwargs ?br dec r ids)"
          by blast
        have "?P cs"
        proof (intro allI impI)
          fix kw assume "MakeTaskGraph kw \<in> set cs"
          with cs(2) obtain r ids where r: "r \<in> set rels" "kw = make_kwargs ?br dec r ids"
            by blast
          then show "\<exists>bc dec. readBranchConfig c ?br = Inr bc
                 \<and> decide (regex_match c) (is_candidate c) (version rel) bc = Inr dec
                 \<and> kw_release_channels kw = release_channels dec
                 \<and> kw_final_verify_channels kw = final_verify_channels dec
                 \<and> kw_publish_to_balrog_channels kw = publish_to_balrog_channels dec
                 \<and> kw_postrelease_version_bump_enabled kw = postrelease_enabled dec
                 \<and> kw_postrelease_bouncer_aliases_enabled kw = postrelease_bouncer_aliases_enabled dec
                 \<and> kw_push_to_releases_enabled kw = push_to_releases_enabled dec
                 \<and> kw_branch kw = ?br
                 \<and> (\<exists>r\<in>set rels. kw_version kw = version r \<and> kw_repo_path kw = branch r)"
            using bc dec by (auto simp: make_kwargs_def)
        qed
        with cs(1) m show ?thesis by auto
      qed
    qed
  qed
  with rel show ?thesis by simp
qed

lemma update_channels_no_match:
  assumes "\<forall>(p, chans)\<in>set mappings. \<not> m p ver"
  shows "update_channels m ver mappings = Inl (RuntimeError (''Cannot find update channels for '' @ ver))"
  using assms by (induction mappings) auto

text \<open>
  The channels are derived before the release loop and outside its \<open>try\<close>, from the
  version of the release that the discovery loop leaves bound. When no mapping entry
  matches that version, the RuntimeError leaves \<open>main\<close> uncaught and the state is as it
  was.
\<close>

lemma main_unmapped_version:
  assumes "poll_loop polls = Some (Inr (rel, rels))"
    and "prepare_configs c = None"
    and "readBranchConfig c (last (split_sep (CHR ''/'') [] (branch rel))) = Inr bc"
    and "bc_release_channel_mappings bc = Some mappings"
    and "\<forall>(p, chans)\<in>set mappings. \<not> regex_match c p (version rel)"
  shows "rel = last rels
     \<and> main c polls w
         = (Uncaught (RuntimeError (''Cannot find update channels for '' @ version rel)), w)"
proof -
  have d: "decide (regex_match c) (is_candidate c) (version rel) bc
      = Inl (RuntimeError (''Cannot find update channels for '' @ version rel))"
    using update_channels_no_match [of mappings "regex_match c" "version rel"] assms(5)
    by (simp add: decide_def assms(4))
  have "main c polls w
         = (Uncaught (RuntimeError (''Cannot find update channels for '' @ version rel)), w)"
    by (simp add: main_def assms(1,2,3) d)
  with poll_loop_last [OF assms(1)] show ?thesis by blast
qed

subsection \<open>The runs of the examples\<close>





lemma mixed_wave_poll:
  "poll_loop mixed_wave = Some (Inr (beta_release ''40.0b1'', [final_release, beta_release ''40.0b1'']))"
  by (simp add: mixed_wave_def)

lemma beta_branch: "last (split_sep (CHR ''/'') [] (branch (beta_release v))) = ''mozilla-beta''"
  by (simp add: beta_release_def)

lemma beta_match: "py_re_match pattern_beta ''40.0b1''"
  by (simp add: py_re_match_def re_compile_pattern_beta is_digit_def)

lemma beta_decide: "decide py_re_match (\<lambda>chans. ''release'' \<notin> set chans) ''40.0b1'' beta_config
   = Inr beta_decision"
  by (simp add: decide_def beta_config_def beta_match beta_decision_def)

lemma mixed_wave_main:
  "main example_collab mixed_wave empty_world
     = run_wave example_collab ''mozilla-beta'' beta_decision
         [final_release, beta_release ''40.0b1''] empty_world"
  using beta_decide
  by (simp add: main_def mixed_wave_poll beta_branch)
     (simp add: example_collab_def example_branch_config_def beta_release_def)

lemma mixed_wave_calls:
  "submitted_kwargs (calls (snd (main example_collab mixed_wave empty_world))) =
     [make_kwargs ''mozilla-beta'' beta_decision final_release [''task1''],
      make_kwargs ''mozilla-beta'' beta_decision (beta_release ''40.0b1'') [''task1'']]"
  unfolding mixed_wave_main
  by (simp add: runner_defs sanity_defs final_release_def)


theorem main_single_channel_decision_witness:
  "map kw_version (submitted_kwargs (calls (snd (main example_collab mixed_wave empty_world))))
     = [''40.0.1'', ''40.0b1'']
   \<and> map kw_repo_path (submitted_kwargs (calls (snd (main example_collab mixed_wave empty_world))))
     = [''releases/mozilla-release'', ''releases/mozilla-beta'']
   \<and> map kw_branch (submitted_kwargs (calls (snd (main example_collab mixed_wave empty_world))))
     = [''mozilla-beta'', ''mozilla-beta'']
   \<and> map kw_release_channels (submitted_kwargs (calls (snd (main example_collab mixed_wave empty_world))))
     = [[''beta''], [''beta'']]
   \<and> map kw_push_to_releases_enabled
       (submitted_kwargs (calls (snd (main example_collab mixed_wave empty_world))))
     = [False, False]"
proof -
  let ?kw = "make_kwargs ''mozilla-beta'' beta_decision final_release [''task1'']"
  from main_single_channel_decision [OF mixed_wave_poll, of example_collab empty_world]
  obtain cs where cs: "calls (snd (main example_collab mixed_wave empty_world)) = calls empty_world @ cs"
    "\<forall>kw. MakeTaskGraph kw \<in> set cs \<longrightarrow>
       (\<exists>bc dec. readBranchConfig example_collab
                   (last (split_sep (CHR ''/'') []
                      (branch (last [final_release, beta_release ''40.0b1''])))) = Inr bc
          \<and> decide (regex_match example_collab) (is_candidate example_collab)
               (version (last [final_release, beta_release ''40.0b1''])) bc = Inr dec
          \<and> kw_release_channels kw = release_channels dec
          \<and> kw_push_to_releases_enabled kw = push_to_releases_enabled dec)"
    by blast
  have eq: "cs = calls (snd (main example_collab mixed_wave empty_world))"
    using cs(1) by (simp add: empty_world_def)
  have "MakeTaskGraph ?kw \<in> set cs"
    unfolding eq mixed_wave_main by (simp add: runner_defs sanity_defs final_release_def)
  with cs(2) obtain bc dec where d:
    "readBranchConfig example_collab
       (last (split_sep (CHR ''/'') [] (branch (last [final_release, beta_release ''40.0b1''])))) = Inr bc"
    "decide (regex_match example_collab) (is_candidate example_collab)
       (version (last [final_release, beta_release ''40.0b1''])) bc = Inr dec"
    "kw_release_channels ?kw = release_channels dec"
    "kw_push_to_releases_enabled ?kw = push_to_releases_enabled dec"
    by blast
  from d(1) have "bc = beta_config"
    by (simp add: beta_branch) (simp add: example_collab_def example_branch_config_def)
  with d(2) beta_decide have "dec = beta_decision"
    by (simp add: example_collab_def beta_release_def)
  with d(3,4) have "kw_release_channels ?kw = [''beta'']" "kw_push_to_releases_enabled ?kw = False"
    by (simp_all add: beta_decision_def)
  then show ?thesis
    by (simp add: mixed_wave_calls make_kwargs_def final_release_def beta_release_def beta_decision_def)
qed

lemma unmapped_wave_poll:
  "poll_loop unmapped_wave
     = Some (Inr (beta_release ''99.9.9'', [beta_release ''40.0b1'', beta_release ''99.9.9'']))"
  by (simp add: unmapped_wave_def)

lemma beta_no_match: "\<not> py_re_match pattern_beta ''99.9.9''"
  by (simp add: py_re_match_def re_compile_pattern_beta is_digit_def)

lemma main_unmapped_version_example:
  "main example_collab unmapped_wave empty_world
     = (Uncaught (RuntimeError ''Cannot find update channels for 99.9.9''), empty_world)"
proof -
  have 1: "prepare_configs example_collab = None" by (simp add: example_collab_def)
  have 2: "readBranchConfig example_collab
             (last (split_sep (CHR ''/'') [] (branch (beta_release ''99.9.9'')))) = Inr beta_config"
    by (simp add: beta_branch) (simp add: example_collab_def example_branch_config_def)
  have 3: "bc_release_channel_mappings beta_config = Some [(pattern_beta, [''beta''])]"
    by (simp add: beta_config_def)
  have 4: "\<forall>(p, chans)\<in>set [(pattern_beta, [''beta''])].
             \<not> regex_match example_collab p (version (beta_release ''99.9.9''))"
    using beta_no_match by (simp add: example_collab_def beta_release_def)
  from main_unmapped_version [OF unmapped_wave_poll 1 2 3 4, of empty_world]
  show ?thesis by (simp add: beta_release_def)
qed

text \<open>
  C2. A wave of two releases whose last version has no mapping entry: the RuntimeError
  of \<open>update_channels\<close> is not caught at any per-release boundary. \<open>main\<close> ends with
  it, uncaught, and has called no collaborator: the release is not marked failed and
  the other release of the wave, whose version is mapped, is not processed.
\<close>

theorem main_unmapped_version_aborts_wave:
  "fst (main example_collab unmapped_wave empty_world)
     = Uncaught (RuntimeError ''Cannot find update channels for 99.9.9'')
   \<and> calls (snd (main example_collab unmapped_wave empty_world)) = []"
proof -
  have d: "decide py_re_match (\<lambda>chans. ''release'' \<notin> set chans) ''99.9.9'' beta_config
             = Inl (RuntimeError ''Cannot find update channels for 99.9.9'')"
    by (simp add: decide_def beta_config_def beta_no_match)
  have "main example_collab unmapped_wave empty_world
          = (Uncaught (RuntimeError ''Cannot find update channels for 99.9.9''), empty_world)"
    using d
    by (simp add: main_def unmapped_wave_poll beta_branch)
       (simp add: example_collab_def example_branch_config_def beta_release_def)
  then show ?thesis by (simp add: empty_world_def)
qed


end
